theory Spec2Isabelle
  imports Main "HOL-Library.Word" "HOL-Library.Sublist"
begin

section \<open>The task list of \<^verbatim>\<open>src/App.tsx\<close>\<close>

text \<open>
  The component \<^verbatim>\<open>App\<close> keeps four pieces of React state (the task list, the text of
  the input field, the filter and the theme), two memoised values derived from them, and
  five event handlers that replace the state. Each handler is modelled as a function from
  the state before the event to the state after it; what the handlers read from the host
  (the random id, the clock, the local storage, the media query) is passed in. The lists
  are taken at the type the source declares for them, \<^verbatim>\<open>Todo[]\<close>. The two effects that
  write the task list and the theme back to the local storage after a render are left
  out: nothing below reads the storage after the start.
\<close>

subsection \<open>Strings\<close>

text \<open>
  A JavaScript string is a sequence of UTF-16 code units. \<open>js\<close> writes an ASCII literal
  of the source as such a sequence.
\<close>

type_synonym js_string = "16 word list"

definition js :: "string \<Rightarrow> js_string" where
  "js s = map (\<lambda>c. of_nat (of_char c)) s"

text \<open>
  \<^verbatim>\<open>String.prototype.trim\<close> removes the WhiteSpace and LineTerminator code points of
  ECMAScript from both ends: TAB, VT, FF, SP, NBSP, BOM and the other space separators,
  and LF, CR, LS, PS. All of them are single code units.
\<close>

definition isWhiteSpace :: "16 word \<Rightarrow> bool" where
  "isWhiteSpace c \<longleftrightarrow>
     c = 0x0009 \<or> c = 0x000A \<or> c = 0x000B \<or> c = 0x000C \<or> c = 0x000D \<or>
     c = 0x0020 \<or> c = 0x00A0 \<or> c = 0x1680 \<or> (0x2000 \<le> c \<and> c \<le> 0x200A) \<or>
     c = 0x2028 \<or> c = 0x2029 \<or> c = 0x202F \<or> c = 0x205F \<or> c = 0x3000 \<or>
     c = 0xFEFF"

definition trimStart :: "js_string \<Rightarrow> js_string" where
  "trimStart s = dropWhile isWhiteSpace s"

definition trimEnd :: "js_string \<Rightarrow> js_string" where
  "trimEnd s = rev (dropWhile isWhiteSpace (rev s))"

definition trim :: "js_string \<Rightarrow> js_string" where
  "trim s = trimEnd (trimStart s)"

subsection \<open>Data\<close>

text \<open>
  \<^verbatim>\<open>type Todo = { id: string; text: string; done: boolean; createdAt: number }\<close>.
  The fields carry the suffix \<open>_todo\<close> where the source's name is taken in Isabelle.
  \<^verbatim>\<open>createdAt\<close> holds \<^verbatim>\<open>Date.now()\<close>, a whole number of milliseconds.
\<close>

record Todo =
  id_todo :: js_string
  text_todo :: js_string
  done_todo :: bool
  createdAt :: int

datatype Filter = All_filter | Active | Completed

datatype Theme = Dark | Light

record app_state =
  todos :: "Todo list"
  input :: js_string
  filter_state :: Filter
  theme :: Theme

subsection \<open>Event handlers\<close>

text \<open>
  \<^verbatim>\<open>handleAddTodo\<close>: \<open>uuid\<close> is what \<^verbatim>\<open>crypto.randomUUID()\<close> returns and \<open>now\<close> what
  \<^verbatim>\<open>Date.now()\<close> returns at the event. An empty string is the only falsy string, so
  \<^verbatim>\<open>if (!text) return\<close> leaves on \<open>text = []\<close>.
\<close>

definition handleAddTodo :: "js_string \<Rightarrow> int \<Rightarrow> app_state \<Rightarrow> app_state" where
  "handleAddTodo uuid now s =
     (let text = trim (input s) in
      if text = [] then s
      else
        let newTodo = \<lparr>id_todo = uuid, text_todo = text, done_todo = False, createdAt = now\<rparr>
        in s\<lparr>todos := newTodo # todos s, input := []\<rparr>)"

text \<open>
  \<^verbatim>\<open>toggleTodo\<close>, \<^verbatim>\<open>deleteTodo\<close> and \<^verbatim>\<open>clearCompleted\<close> pass an updater to
  \<^verbatim>\<open>setTodos\<close>; React applies it to the list of the state before the event.
\<close>

definition toggleTodo :: "js_string \<Rightarrow> app_state \<Rightarrow> app_state" where
  "toggleTodo i s =
     s\<lparr>todos :=
         map (\<lambda>todo. if id_todo todo = i then todo\<lparr>done_todo := \<not> done_todo todo\<rparr> else todo)
           (todos s)\<rparr>"

definition deleteTodo :: "js_string \<Rightarrow> app_state \<Rightarrow> app_state" where
  "deleteTodo i s = s\<lparr>todos := filter (\<lambda>todo. id_todo todo \<noteq> i) (todos s)\<rparr>"

definition clearCompleted :: "app_state \<Rightarrow> app_state" where
  "clearCompleted s = s\<lparr>todos := filter (\<lambda>t. \<not> done_todo t) (todos s)\<rparr>"

definition handleThemeToggle :: "app_state \<Rightarrow> app_state" where
  "handleThemeToggle s = s\<lparr>theme := (if theme s = Dark then Light else Dark)\<rparr>"

subsection \<open>Derived values\<close>

text \<open>
  The callbacks the component hands to \<^verbatim>\<open>useMemo\<close>. Each reads exactly the values
  listed as its dependencies, which are the arguments here. In \<^verbatim>\<open>filteredTodos\<close> the
  \<^verbatim>\<open>default\<close> branch of the \<^verbatim>\<open>switch\<close> takes the one remaining value, \<^verbatim>\<open>'all'\<close>.
\<close>

definition filteredTodos :: "Todo list \<Rightarrow> Filter \<Rightarrow> Todo list" where
  "filteredTodos ts f =
     (case f of
        Active \<Rightarrow> filter (\<lambda>t. \<not> done_todo t) ts
      | Completed \<Rightarrow> filter (\<lambda>t. done_todo t) ts
      | All_filter \<Rightarrow> ts)"

definition remainingCount :: "Todo list \<Rightarrow> nat" where
  "remainingCount ts = length (filter (\<lambda>t. \<not> done_todo t) ts)"

text \<open>
  \<^verbatim>\<open>useMemo(create, deps)\<close> keeps the dependencies and the value of the last computation
  in a cell of the component. On a render it returns the kept value when the dependencies
  are the ones kept, and calls \<open>create\<close> again otherwise. React compares the dependencies
  by reference; no handler mutates a list in place, so the same reference holds the same
  list, and the comparison by value made here returns the kept value in every case where
  React does.
\<close>

type_synonym ('d, 'v) memo = "('d \<times> 'v) option"

definition useMemo :: "('d \<Rightarrow> 'v) \<Rightarrow> 'd \<Rightarrow> ('d, 'v) memo \<Rightarrow> 'v \<times> ('d, 'v) memo" where
  "useMemo create deps cell =
     (case cell of
        None \<Rightarrow> (create deps, Some (deps, create deps))
      | Some (d, v) \<Rightarrow>
          if d = deps then (v, cell) else (create deps, Some (deps, create deps)))"

record hooks =
  memo_filteredTodos :: "(Todo list \<times> Filter, Todo list) memo"
  memo_remainingCount :: "(Todo list, nat) memo"

record view =
  filteredTodos_shown :: "Todo list"
  remainingCount_shown :: nat

text \<open>One render of \<^verbatim>\<open>App\<close>: the two \<^verbatim>\<open>useMemo\<close> calls, in the order of the source.\<close>

definition render :: "app_state \<Rightarrow> hooks \<Rightarrow> view \<times> hooks" where
  "render s h =
     (let (fv, c1) = useMemo (\<lambda>(ts, f). filteredTodos ts f) (todos s, filter_state s)
                       (memo_filteredTodos h);
          (rc, c2) = useMemo remainingCount (todos s) (memo_remainingCount h)
      in (\<lparr>filteredTodos_shown = fv, remainingCount_shown = rc\<rparr>,
          \<lparr>memo_filteredTodos = c1, memo_remainingCount = c2\<rparr>))"

text \<open>
  The events of a session. After each event React renders the component again with the
  new state and the cells of the render before.
\<close>

datatype event =
    SetInput js_string
  | Submit js_string int
  | ToggleTodo js_string
  | DeleteTodo js_string
  | ClearCompleted
  | SetFilter Filter
  | ThemeToggle

fun handle :: "event \<Rightarrow> app_state \<Rightarrow> app_state" where
  "handle (SetInput v) s = s\<lparr>input := v\<rparr>"
| "handle (Submit uuid now) s = handleAddTodo uuid now s"
| "handle (ToggleTodo i) s = toggleTodo i s"
| "handle (DeleteTodo i) s = deleteTodo i s"
| "handle ClearCompleted s = clearCompleted s"
| "handle (SetFilter f) s = s\<lparr>filter_state := f\<rparr>"
| "handle ThemeToggle s = handleThemeToggle s"

fun session :: "event list \<Rightarrow> app_state \<times> view \<times> hooks \<Rightarrow> app_state \<times> view \<times> hooks" where
  "session [] (s, v, h) = (s, v, h)"
| "session (e # es) (s, v, h) = session es (handle e s, render (handle e s) h)"

text \<open>The first render, with both cells empty.\<close>

definition mounted :: "app_state \<Rightarrow> app_state \<times> view \<times> hooks" where
  "mounted s = (s, render s \<lparr>memo_filteredTodos = None, memo_remainingCount = None\<rparr>)"

text \<open>
  A cell is consistent when the value it keeps is the value of the callback at the
  dependencies it keeps. Every cell a render leaves is consistent.
\<close>

definition memo_ok :: "('d \<Rightarrow> 'v) \<Rightarrow> ('d, 'v) memo \<Rightarrow> bool" where
  "memo_ok create cell = (case cell of None \<Rightarrow> True | Some (d, v) \<Rightarrow> v = create d)"

definition hooks_ok :: "hooks \<Rightarrow> bool" where
  "hooks_ok h \<longleftrightarrow>
     memo_ok (\<lambda>(ts, f). filteredTodos ts f) (memo_filteredTodos h) \<and>
     memo_ok remainingCount (memo_remainingCount h)"

text \<open>What a session shows is what the callbacks give at its current state.\<close>

definition shows_state :: "app_state \<times> view \<times> hooks \<Rightarrow> bool" where
  "shows_state c \<longleftrightarrow>
     (case c of (s, v, h) \<Rightarrow>
        v = \<lparr>filteredTodos_shown = filteredTodos (todos s) (filter_state s),
             remainingCount_shown = remainingCount (todos s)\<rparr> \<and> hooks_ok h)"

text \<open>
  The ids an event refers to, and the events that toggle or delete a task: the
  vocabulary of the statement about the order of the list.
\<close>

fun referred :: "event \<Rightarrow> js_string list" where
  "referred (ToggleTodo i) = [i]"
| "referred (DeleteTodo i) = [i]"
| "referred e = []"

fun is_toggle_or_delete :: "event \<Rightarrow> bool" where
  "is_toggle_or_delete (ToggleTodo i) = True"
| "is_toggle_or_delete (DeleteTodo i) = True"
| "is_toggle_or_delete e = False"

subsection \<open>Startup\<close>

text \<open>
  What the two loaders read from the host. \<^verbatim>\<open>typeof window === 'undefined'\<close> is the
  environment \<open>None\<close>. Reading the local storage can throw (a browser that blocks
  storage raises a SecurityError), and so can \<^verbatim>\<open>JSON.parse\<close> (a SyntaxError); a throw is
  the left injection. \<^verbatim>\<open>window.matchMedia\<close> may be missing, which the source allows for
  with \<^verbatim>\<open>?.\<close>; when present it maps a media query to its \<^verbatim>\<open>matches\<close> flag.
\<close>

datatype exn = SyntaxError | SecurityError

record window =
  localStorage_getItem :: "js_string \<Rightarrow> exn + js_string option"
  matchMedia :: "(js_string \<Rightarrow> bool) option"

text \<open>
  The value \<^verbatim>\<open>JSON.parse\<close> returns. The source tests it with \<^verbatim>\<open>Array.isArray\<close> and
  reads nothing else of it, so only an array carries its contents; the elements have the
  type the source gives them by returning \<^verbatim>\<open>parsed\<close> as \<^verbatim>\<open>Todo[]\<close> unchecked.
\<close>

datatype 'a json = JsonNull | JsonBoolean bool | JsonNumber | JsonString js_string
  | JsonObject | JsonArray "'a list"

fun isArray :: "'a json \<Rightarrow> bool" where
  "isArray (JsonArray xs) = True"
| "isArray v = False"

definition STORAGE_KEY :: js_string where
  "STORAGE_KEY = js ''ai-todo-items-v1''"

definition THEME_KEY :: js_string where
  "THEME_KEY = js ''ai-todo-theme''"

text \<open>The \<^verbatim>\<open>try\<close> block of \<^verbatim>\<open>loadInitialTodos\<close>. \<^verbatim>\<open>!raw\<close> holds of \<^verbatim>\<open>null\<close> and of \<^verbatim>\<open>''\<close>.\<close>

definition loadInitialTodos_try ::
  "window \<Rightarrow> (js_string \<Rightarrow> exn + 'a json) \<Rightarrow> exn + 'a list" where
  "loadInitialTodos_try w JSON_parse =
     (case localStorage_getItem w STORAGE_KEY of
        Inl e \<Rightarrow> Inl e
      | Inr None \<Rightarrow> Inr []
      | Inr (Some raw) \<Rightarrow>
          if raw = [] then Inr []
          else
            (case JSON_parse raw of
               Inl e \<Rightarrow> Inl e
             | Inr parsed \<Rightarrow>
                 if \<not> isArray parsed then Inr []
                 else (case parsed of JsonArray xs \<Rightarrow> Inr xs | _ \<Rightarrow> Inr [])))"

definition loadInitialTodos ::
  "window option \<Rightarrow> (js_string \<Rightarrow> exn + 'a json) \<Rightarrow> exn + 'a list" where
  "loadInitialTodos env JSON_parse =
     (case env of
        None \<Rightarrow> Inr []
      | Some w \<Rightarrow>
          (case loadInitialTodos_try w JSON_parse of
             Inl e \<Rightarrow> Inr []
           | Inr r \<Rightarrow> Inr r))"

text \<open>
  \<^verbatim>\<open>loadInitialTheme\<close> reads the storage outside any \<^verbatim>\<open>try\<close>. \<open>prefersDark\<close> is
  \<^verbatim>\<open>undefined\<close> (here \<open>None\<close>) when \<^verbatim>\<open>matchMedia\<close> is missing, and \<^verbatim>\<open>undefined\<close> is falsy.
\<close>

definition loadInitialTheme :: "window option \<Rightarrow> exn + Theme" where
  "loadInitialTheme env =
     (case env of
        None \<Rightarrow> Inr Dark
      | Some w \<Rightarrow>
          (case localStorage_getItem w THEME_KEY of
             Inl e \<Rightarrow> Inl e
           | Inr stored \<Rightarrow>
               if stored = Some (js ''dark'') then Inr Dark
               else if stored = Some (js ''light'') then Inr Light
               else
                 let prefersDark =
                       (case matchMedia w of
                          None \<Rightarrow> None
                        | Some mm \<Rightarrow> Some (mm (js ''(prefers-color-scheme: dark)'')))
                 in Inr (if prefersDark = Some True then Dark else Light)))"

subsection \<open>Sample data\<close>

text \<open>Two tasks and a host, used where a statement is evaluated at a concrete input.\<close>

definition milk :: Todo where
  "milk = \<lparr>id_todo = js ''a1'', text_todo = js ''Buy milk'', done_todo = False,
           createdAt = 1700000000000\<rparr>"

definition mail :: Todo where
  "mail = \<lparr>id_todo = js ''b2'', text_todo = js ''Send mail'', done_todo = True,
           createdAt = 1700000000500\<rparr>"

definition empty_state :: app_state where
  "empty_state = \<lparr>todos = [], input = [], filter_state = All_filter, theme = Dark\<rparr>"

definition browser :: "(js_string \<Rightarrow> js_string option) \<Rightarrow> window" where
  "browser stored =
     \<lparr>localStorage_getItem = (\<lambda>k. Inr (stored k)), matchMedia = Some (\<lambda>q. True)\<rparr>"

text \<open>A host with a window and an empty storage, but without \<^verbatim>\<open>matchMedia\<close>.\<close>

definition bare_window :: window where
  "bare_window = \<lparr>localStorage_getItem = (\<lambda>k. Inr None), matchMedia = None\<rparr>"

section \<open>Adding a task\<close>

lemma dropWhile_all_iff:
  "(\<forall>x \<in> set (dropWhile P xs). P x) \<longleftrightarrow> (\<forall>x \<in> set xs. P x)"
proof
  assume a: "\<forall>x \<in> set (dropWhile P xs). P x"
  have "dropWhile P xs = []"
  proof (rule ccontr)
    assume n: "dropWhile P xs \<noteq> []"
    then have "\<not> P (hd (dropWhile P xs))" by (rule hd_dropWhile)
    moreover from n have "hd (dropWhile P xs) \<in> set (dropWhile P xs)" by simp
    ultimately show False using a by blast
  qed
  then show "\<forall>x \<in> set xs. P x" by (simp add: dropWhile_eq_Nil_conv)
next
  assume "\<forall>x \<in> set xs. P x"
  then show "\<forall>x \<in> set (dropWhile P xs). P x" by (auto dest: set_dropWhileD)
qed

text \<open>The trimmed text is empty exactly when the text holds nothing but white space.\<close>

lemma trim_empty_iff: "trim s = [] \<longleftrightarrow> (\<forall>c \<in> set s. isWhiteSpace c)"
  by (simp add: trim_def trimStart_def trimEnd_def dropWhile_eq_Nil_conv dropWhile_all_iff)

text \<open>
  \<open>trim\<close> takes white space, and nothing else, off both ends: the text is white space,
  then the trimmed text, then white space, and a trimmed text that is not empty neither
  starts nor ends with white space.
\<close>

lemma last_dropWhile_nonempty:
  "dropWhile P xs \<noteq> [] \<Longrightarrow> last (dropWhile P xs) = last xs"
  by (induction xs) auto

lemma trimEnd_decompose:
  "\<exists>b. d = trimEnd d @ b \<and> (\<forall>c \<in> set b. isWhiteSpace c)"
proof (intro exI conjI)
  have "trimEnd d @ rev (takeWhile isWhiteSpace (rev d))
        = rev (takeWhile isWhiteSpace (rev d) @ dropWhile isWhiteSpace (rev d))"
    by (simp only: trimEnd_def rev_append)
  also have "\<dots> = rev (rev d)"
    by (simp only: takeWhile_dropWhile_id)
  also have "\<dots> = d" by simp
  finally show "d = trimEnd d @ rev (takeWhile isWhiteSpace (rev d))"
    by (rule sym)
  show "\<forall>c \<in> set (rev (takeWhile isWhiteSpace (rev d))). isWhiteSpace c"
    by (auto dest: set_takeWhileD)
qed

lemma trim_decompose:
  "\<exists>a b. s = a @ trim s @ b \<and> (\<forall>c \<in> set a. isWhiteSpace c) \<and> (\<forall>c \<in> set b. isWhiteSpace c)"
proof -
  obtain b where b: "trimStart s = trim s @ b" "\<forall>c \<in> set b. isWhiteSpace c"
    using trimEnd_decompose [of "trimStart s"] by (auto simp: trim_def)
  have "s = takeWhile isWhiteSpace s @ trimStart s"
    by (simp add: trimStart_def)
  with b have "s = takeWhile isWhiteSpace s @ trim s @ b" by simp
  moreover have "\<forall>c \<in> set (takeWhile isWhiteSpace s). isWhiteSpace c"
    by (auto dest: set_takeWhileD)
  ultimately show ?thesis using b(2) by blast
qed

lemma trim_ends:
  assumes "trim s \<noteq> []"
  shows "\<not> isWhiteSpace (hd (trim s))" and "\<not> isWhiteSpace (last (trim s))"
proof -
  let ?d = "trimStart s"
  from assms have d: "?d \<noteq> []" by (auto simp: trim_def trimEnd_def)
  then have hd_d: "\<not> isWhiteSpace (hd ?d)"
    unfolding trimStart_def by (rule hd_dropWhile)
  from assms have r: "dropWhile isWhiteSpace (rev ?d) \<noteq> []"
    by (simp add: trim_def trimEnd_def)
  then have "\<not> isWhiteSpace (hd (dropWhile isWhiteSpace (rev ?d)))"
    by (rule hd_dropWhile)
  with r show "\<not> isWhiteSpace (last (trim s))"
    by (simp add: trim_def trimEnd_def last_rev)
  have "last (dropWhile isWhiteSpace (rev ?d)) = last (rev ?d)"
    using r by (rule last_dropWhile_nonempty)
  with r d hd_d show "\<not> isWhiteSpace (hd (trim s))"
    by (simp add: trim_def trimEnd_def hd_rev last_rev)
qed

text \<open>
  Claim C1. For every text of the input field: when the trimmed text is empty,
  \<^verbatim>\<open>handleAddTodo\<close> returns the state it was given, so the task list is unchanged and
  nothing is raised; otherwise the new task list is the old one with exactly one task put
  in front of it, whose text is the trimmed input, whose \<^verbatim>\<open>done\<close> is false, whose
  \<^verbatim>\<open>createdAt\<close> is the current time and whose id is the one just generated, and the list
  is one longer.
\<close>

theorem addTask_contract:
  "(trim (input s) = [] \<longrightarrow> handleAddTodo uuid now s = s) \<and>
   (trim (input s) \<noteq> [] \<longrightarrow>
      todos (handleAddTodo uuid now s) =
        \<lparr>id_todo = uuid, text_todo = trim (input s), done_todo = False, createdAt = now\<rparr>
          # todos s \<and>
      length (todos (handleAddTodo uuid now s)) = Suc (length (todos s)))"
  by (simp add: handleAddTodo_def Let_def)

text \<open>
  A field of three spaces adds nothing; the field \<^verbatim>\<open>'  Buy milk '\<close> adds the task
  \<^verbatim>\<open>'Buy milk'\<close>.
\<close>

theorem addTask_contract_witness:
  "trim (input \<lparr>todos = [], input = js ''   '', filter_state = All_filter, theme = Dark\<rparr>) = [] \<and>
   handleAddTodo (js ''a1'') 1700000000000
       \<lparr>todos = [], input = js ''   '', filter_state = All_filter, theme = Dark\<rparr>
     = \<lparr>todos = [], input = js ''   '', filter_state = All_filter, theme = Dark\<rparr> \<and>
   trim (input \<lparr>todos = [], input = js ''  Buy milk '', filter_state = All_filter,
                 theme = Dark\<rparr>) \<noteq> [] \<and>
   todos (handleAddTodo (js ''a1'') 1700000000000
       \<lparr>todos = [], input = js ''  Buy milk '', filter_state = All_filter, theme = Dark\<rparr>)
     = [\<lparr>id_todo = js ''a1'', text_todo = js ''Buy milk'', done_todo = False,
         createdAt = 1700000000000\<rparr>]"
  using addTask_contract
          [of "\<lparr>todos = [], input = js ''   '', filter_state = All_filter, theme = Dark\<rparr>"
              "js ''a1''" 1700000000000]
        addTask_contract
          [of "\<lparr>todos = [], input = js ''  Buy milk '', filter_state = All_filter,
                theme = Dark\<rparr>"
              "js ''a1''" 1700000000000]
  by (simp add: trim_def trimStart_def trimEnd_def js_def isWhiteSpace_def)

text \<open>
  Over any sequence of submissions, each typed into the field and then sent, the list
  grows by the number of submissions whose trimmed text is not empty.
\<close>

lemma submissions_length:
  "length (todos (fold handle (concat (map (\<lambda>(t, uuid, now). [SetInput t, Submit uuid now]) adds)) s))
   = length (todos s) + length (filter (\<lambda>(t, uuid, now). trim t \<noteq> []) adds)"
proof (induction adds arbitrary: s)
  case Nil
  then show ?case by simp
next
  case (Cons a adds)
  obtain t uuid now where a: "a = (t, uuid, now)" by (cases a)
  have "length (todos (handleAddTodo uuid now (s\<lparr>input := t\<rparr>)))
        = length (todos s) + (if trim t \<noteq> [] then 1 else 0)"
    by (simp add: handleAddTodo_def Let_def)
  then show ?case by (simp add: a Cons.IH)
qed

section \<open>The filtered view and clearing\<close>

lemma count_list_filter:
  "count_list (filter P xs) x = (if P x then count_list xs x else 0)"
  by (induction xs) auto

text \<open>
  Claim C4. For every task list and every filter: under \<^verbatim>\<open>'all'\<close> the view is the whole
  list; under \<^verbatim>\<open>'active'\<close> it is a subsequence of the list, in the list's order, that
  holds every task with \<^verbatim>\<open>done == false\<close> as often as the list does and no task with
  \<^verbatim>\<open>done == true\<close>; under \<^verbatim>\<open>'completed'\<close> the same with the two values of \<^verbatim>\<open>done\<close>
  exchanged. The active and the completed view share no task and together hold the tasks
  of the list.
\<close>

theorem filteredView_contract:
  "filteredTodos ts All_filter = ts \<and>
   subseq (filteredTodos ts Active) ts \<and>
   (\<forall>t. count_list (filteredTodos ts Active) t =
          (if done_todo t then 0 else count_list ts t)) \<and>
   subseq (filteredTodos ts Completed) ts \<and>
   (\<forall>t. count_list (filteredTodos ts Completed) t =
          (if done_todo t then count_list ts t else 0)) \<and>
   set (filteredTodos ts Active) \<inter> set (filteredTodos ts Completed) = {} \<and>
   set (filteredTodos ts Active) \<union> set (filteredTodos ts Completed) = set ts"
  by (auto simp: filteredTodos_def count_list_filter)

theorem filteredView_contract_witness:
  "filteredTodos [milk, mail, milk] All_filter = [milk, mail, milk] \<and>
   filteredTodos [milk, mail, milk] Active = [milk, milk] \<and>
   filteredTodos [milk, mail, milk] Completed = [mail] \<and>
   count_list (filteredTodos [milk, mail, milk] Active) milk = 2 \<and>
   count_list (filteredTodos [milk, mail, milk] Active) mail = 0 \<and>
   count_list (filteredTodos [milk, mail, milk] Completed) mail = 1"
  using filteredView_contract [of "[milk, mail, milk]"]
  by (simp add: filteredTodos_def milk_def mail_def js_def)

text \<open>
  Claim C6. For every task list, \<^verbatim>\<open>clearCompleted\<close> leaves a subsequence of the list,
  in the list's order, that holds every task with \<^verbatim>\<open>done == false\<close> as often as before
  and no task with \<^verbatim>\<open>done == true\<close>, and the completed view of the list it leaves is
  empty. The rest of the state is untouched.
\<close>

theorem clearCompleted_contract:
  "subseq (todos (clearCompleted s)) (todos s) \<and>
   (\<forall>t. count_list (todos (clearCompleted s)) t =
          (if done_todo t then 0 else count_list (todos s) t)) \<and>
   filteredTodos (todos (clearCompleted s)) Completed = [] \<and>
   input (clearCompleted s) = input s \<and> filter_state (clearCompleted s) = filter_state s \<and>
   theme (clearCompleted s) = theme s"
  by (auto simp: clearCompleted_def filteredTodos_def count_list_filter filter_empty_conv)

theorem clearCompleted_contract_witness:
  "todos (clearCompleted (empty_state\<lparr>todos := [mail, milk, mail]\<rparr>)) = [milk] \<and>
   count_list (todos (clearCompleted (empty_state\<lparr>todos := [mail, milk, mail]\<rparr>))) mail = 0 \<and>
   count_list (todos (clearCompleted (empty_state\<lparr>todos := [mail, milk, mail]\<rparr>))) milk = 1 \<and>
   filteredTodos (todos (clearCompleted (empty_state\<lparr>todos := [mail, milk, mail]\<rparr>)))
     Completed = []"
  using clearCompleted_contract [of "empty_state\<lparr>todos := [mail, milk, mail]\<rparr>"]
  by (simp add: clearCompleted_def empty_state_def milk_def mail_def)

section \<open>Toggling and deleting\<close>

text \<open>
  Claim C7. For every state and every id that no task of the list carries,
  \<^verbatim>\<open>toggleTodo\<close> and \<^verbatim>\<open>deleteTodo\<close> each return the state they were given.
\<close>

theorem absent_id_noop:
  "i \<notin> id_todo ` set (todos s) \<Longrightarrow> toggleTodo i s = s \<and> deleteTodo i s = s"
proof -
  assume a: "i \<notin> id_todo ` set (todos s)"
  then have "\<forall>t \<in> set (todos s). id_todo t \<noteq> i" by auto
  then have m: "map (\<lambda>todo. if id_todo todo = i then todo\<lparr>done_todo := \<not> done_todo todo\<rparr>
                            else todo) (todos s) = todos s"
    and f: "filter (\<lambda>todo. id_todo todo \<noteq> i) (todos s) = todos s"
    by (simp_all add: map_idI filter_id_conv)
  show ?thesis by (simp add: toggleTodo_def deleteTodo_def m f)
qed

theorem absent_id_noop_witness:
  "js ''c3'' \<notin> id_todo ` set (todos (empty_state\<lparr>todos := [mail, milk]\<rparr>)) \<and>
   toggleTodo (js ''c3'') (empty_state\<lparr>todos := [mail, milk]\<rparr>)
     = empty_state\<lparr>todos := [mail, milk]\<rparr> \<and>
   deleteTodo (js ''c3'') (empty_state\<lparr>todos := [mail, milk]\<rparr>)
     = empty_state\<lparr>todos := [mail, milk]\<rparr>"
proof -
  have h: "js ''c3'' \<notin> id_todo ` set (todos (empty_state\<lparr>todos := [mail, milk]\<rparr>))"
    by (simp add: empty_state_def milk_def mail_def js_def)
  from h absent_id_noop [OF h] show ?thesis by simp
qed

text \<open>
  Claim C8. For every state and every id, \<^verbatim>\<open>toggleTodo\<close> keeps the length of the list
  and, position by position, the id, the text and the creation time of every task; a task
  whose id is not the given one is the same task afterwards. The input, the filter and the
  theme are untouched. So nothing but the \<^verbatim>\<open>done\<close> field of a matching task can change.
\<close>

theorem toggle_frame:
  "length (todos (toggleTodo i s)) = length (todos s) \<and>
   map id_todo (todos (toggleTodo i s)) = map id_todo (todos s) \<and>
   map text_todo (todos (toggleTodo i s)) = map text_todo (todos s) \<and>
   map createdAt (todos (toggleTodo i s)) = map createdAt (todos s) \<and>
   (\<forall>k < length (todos s). id_todo (todos s ! k) \<noteq> i \<longrightarrow>
      todos (toggleTodo i s) ! k = todos s ! k) \<and>
   input (toggleTodo i s) = input s \<and> filter_state (toggleTodo i s) = filter_state s \<and>
   theme (toggleTodo i s) = theme s"
  by (simp add: toggleTodo_def)

theorem toggle_frame_witness:
  "todos (toggleTodo (js ''a1'') (empty_state\<lparr>todos := [mail, milk]\<rparr>))
     = [mail, milk\<lparr>done_todo := True\<rparr>] \<and>
   id_todo (todos (empty_state\<lparr>todos := [mail, milk]\<rparr>) ! 0) \<noteq> js ''a1'' \<and>
   todos (toggleTodo (js ''a1'') (empty_state\<lparr>todos := [mail, milk]\<rparr>)) ! 0 = mail \<and>
   map text_todo (todos (toggleTodo (js ''a1'') (empty_state\<lparr>todos := [mail, milk]\<rparr>)))
     = [js ''Send mail'', js ''Buy milk'']"
  using toggle_frame [of "js ''a1''" "empty_state\<lparr>todos := [mail, milk]\<rparr>"]
  by (simp add: toggleTodo_def empty_state_def milk_def mail_def js_def)

section \<open>Startup\<close>

text \<open>
  Claim C3. \<^verbatim>\<open>loadInitialTodos\<close> never raises: with any host and any parser it returns
  a list. When the read of the storage throws, when nothing is stored under the key, when
  the stored text does not parse, or when it parses to a value that is not an array, the
  list it returns is empty.
\<close>

theorem rehydration_safe:
  "(\<exists>xs. loadInitialTodos env JSON_parse = Inr xs) \<and>
   ((\<exists>e. localStorage_getItem w STORAGE_KEY = Inl e) \<or>
    localStorage_getItem w STORAGE_KEY = Inr None \<or>
    (\<exists>raw. localStorage_getItem w STORAGE_KEY = Inr (Some raw) \<and>
       ((\<exists>e. JSON_parse raw = Inl e) \<or> (\<exists>v. JSON_parse raw = Inr v \<and> \<not> isArray v)))
    \<longrightarrow> loadInitialTodos (Some w) JSON_parse = Inr [])"
  by (auto simp: loadInitialTodos_def loadInitialTodos_try_def
           split: option.splits sum.splits json.splits)

theorem rehydration_safe_witness:
  "localStorage_getItem (browser (\<lambda>k. None)) STORAGE_KEY = Inr None \<and>
   loadInitialTodos (Some (browser (\<lambda>k. None))) (\<lambda>raw. Inl SyntaxError) = Inr ([] :: Todo list) \<and>
   localStorage_getItem (browser (\<lambda>k. Some (js ''{oops''))) STORAGE_KEY = Inr (Some (js ''{oops'')) \<and>
   loadInitialTodos (Some (browser (\<lambda>k. Some (js ''{oops'')))) (\<lambda>raw. Inl SyntaxError)
     = Inr ([] :: Todo list) \<and>
   loadInitialTodos (Some (browser (\<lambda>k. Some (js ''{}'')))) (\<lambda>raw. Inr JsonObject)
     = Inr ([] :: Todo list)"
  using rehydration_safe [of "Some (browser (\<lambda>k. None))" "\<lambda>raw. Inl SyntaxError :: exn + Todo json"
          "browser (\<lambda>k. None)"]
        rehydration_safe [of "Some (browser (\<lambda>k. Some (js ''{oops'')))"
          "\<lambda>raw. Inl SyntaxError :: exn + Todo json" "browser (\<lambda>k. Some (js ''{oops''))"]
        rehydration_safe [of "Some (browser (\<lambda>k. Some (js ''{}'')))"
          "\<lambda>raw. Inr JsonObject :: exn + Todo json" "browser (\<lambda>k. Some (js ''{}''))"]
  by (simp add: browser_def)

section \<open>The remaining count\<close>

lemma useMemo_ok:
  "memo_ok create cell \<Longrightarrow>
     fst (useMemo create deps cell) = create deps \<and> memo_ok create (snd (useMemo create deps cell))"
  by (auto simp: memo_ok_def useMemo_def split: option.splits)

lemma render_ok:
  assumes "hooks_ok h"
  shows "fst (render s h) = \<lparr>filteredTodos_shown = filteredTodos (todos s) (filter_state s),
                              remainingCount_shown = remainingCount (todos s)\<rparr>"
    and "hooks_ok (snd (render s h))"
proof -
  from assms have a: "memo_ok (\<lambda>(ts, f). filteredTodos ts f) (memo_filteredTodos h)"
    and b: "memo_ok remainingCount (memo_remainingCount h)"
    by (simp_all add: hooks_ok_def)
  note A = useMemo_ok [OF a, of "(todos s, filter_state s)"]
  note B = useMemo_ok [OF b, of "todos s"]
  show "fst (render s h) = \<lparr>filteredTodos_shown = filteredTodos (todos s) (filter_state s),
                              remainingCount_shown = remainingCount (todos s)\<rparr>"
    using A B by (simp add: render_def split_beta)
  show "hooks_ok (snd (render s h))"
    using A B by (simp add: render_def split_beta hooks_ok_def)
qed

lemma mounted_shows: "shows_state (mounted s)"
  using render_ok [of "\<lparr>memo_filteredTodos = None, memo_remainingCount = None\<rparr>" s]
  by (simp add: shows_state_def mounted_def hooks_ok_def memo_ok_def split_beta)

lemma session_shows: "shows_state c \<Longrightarrow> shows_state (session es c)"
proof (induction es arbitrary: c)
  case Nil
  then show ?case by (cases c) simp
next
  case (Cons e es)
  obtain s v h where c: "c = (s, v, h)" by (cases c)
  with Cons.prems have "hooks_ok h" by (simp add: shows_state_def)
  then have "shows_state (handle e s, render (handle e s) h)"
    using render_ok [of h "handle e s"] by (simp add: shows_state_def split_beta)
  then have "shows_state (session es (handle e s, render (handle e s) h))"
    by (rule Cons.IH)
  then show ?case by (simp add: c)
qed

lemma session_Nil: "session [] c = c"
  by (cases c) simp

lemma session_Cons:
  "session (e # es) c = session es (handle e (fst c), render (handle e (fst c)) (snd (snd c)))"
  by (cases c) simp

lemma session_append: "session (es @ es') c = session es' (session es c)"
proof (induction es arbitrary: c)
  case Nil
  then show ?case by (cases c) simp
next
  case (Cons e es)
  then show ?case by (cases c) simp
qed

lemma session_shown:
  assumes "session es (mounted s0) = (s, v, h)"
  shows "remainingCount_shown v = remainingCount (todos s)"
    and "filteredTodos_shown v = filteredTodos (todos s) (filter_state s)"
proof -
  have "shows_state (session es (mounted s0))"
    by (rule session_shows [OF mounted_shows])
  with assms show "remainingCount_shown v = remainingCount (todos s)"
    and "filteredTodos_shown v = filteredTodos (todos s) (filter_state s)"
    by (simp_all add: shows_state_def)
qed

lemma remainingCount_card:
  "remainingCount ts = card {k. k < length ts \<and> \<not> done_todo (ts ! k)}"
  by (simp add: remainingCount_def length_filter_conv_card)

text \<open>
  Claim C5. For every task list, \<^verbatim>\<open>remainingCount\<close> is the number of positions of the
  list that hold a task with \<^verbatim>\<open>done == false\<close>. The value a session shows is never
  stale: after the first render and any sequence of events, each followed by a render that
  goes through the cell of \<^verbatim>\<open>useMemo\<close>, the count shown is that number for the current
  list; in particular when the last event is a toggle, whose state is the one
  \<^verbatim>\<open>toggleTodo\<close> returns.
\<close>

theorem remainingCount_fresh:
  "remainingCount ts = card {k. k < length ts \<and> \<not> done_todo (ts ! k)} \<and>
   (case session es (mounted s0) of
      (s, v, h) \<Rightarrow>
        remainingCount_shown v = card {k. k < length (todos s) \<and> \<not> done_todo (todos s ! k)}) \<and>
   (case session (es @ [ToggleTodo i]) (mounted s0) of
      (s, v, h) \<Rightarrow>
        s = toggleTodo i (fst (session es (mounted s0))) \<and>
        remainingCount_shown v = card {k. k < length (todos s) \<and> \<not> done_todo (todos s ! k)})"
proof (intro conjI)
  show "remainingCount ts = card {k. k < length ts \<and> \<not> done_todo (ts ! k)}"
    by (rule remainingCount_card)
next
  obtain s v h where c: "session es (mounted s0) = (s, v, h)"
    by (cases "session es (mounted s0)")
  from session_shown(1) [OF c] show
    "case session es (mounted s0) of
      (s, v, h) \<Rightarrow>
        remainingCount_shown v = card {k. k < length (todos s) \<and> \<not> done_todo (todos s ! k)}"
    by (simp add: c remainingCount_card)
next
  obtain s v h where c: "session es (mounted s0) = (s, v, h)"
    by (cases "session es (mounted s0)")
  obtain s' v' h' where c': "session (es @ [ToggleTodo i]) (mounted s0) = (s', v', h')"
    by (cases "session (es @ [ToggleTodo i]) (mounted s0)")
  have "s' = toggleTodo i s"
    using c c' by (simp add: session_append session_Nil)
  with session_shown(1) [OF c'] show
    "case session (es @ [ToggleTodo i]) (mounted s0) of
      (s, v, h) \<Rightarrow>
        s = toggleTodo i (fst (session es (mounted s0))) \<and>
        remainingCount_shown v = card {k. k < length (todos s) \<and> \<not> done_todo (todos s ! k)}"
    by (simp add: c c' remainingCount_card)
qed


theorem remainingCount_fresh_witness:
  "session ([] @ [ToggleTodo (js ''a1'')]) (mounted (empty_state\<lparr>todos := [milk]\<rparr>))
     = (empty_state\<lparr>todos := [milk\<lparr>done_todo := True\<rparr>]\<rparr>,
        \<lparr>filteredTodos_shown = [milk\<lparr>done_todo := True\<rparr>], remainingCount_shown = 0\<rparr>,
        \<lparr>memo_filteredTodos =
           Some (([milk\<lparr>done_todo := True\<rparr>], All_filter), [milk\<lparr>done_todo := True\<rparr>]),
          memo_remainingCount = Some ([milk\<lparr>done_todo := True\<rparr>], 0)\<rparr>) \<and>
   remainingCount [milk\<lparr>done_todo := True\<rparr>] = 0 \<and>
   card {k. k < length [milk\<lparr>done_todo := True\<rparr>] \<and>
            \<not> done_todo ([milk\<lparr>done_todo := True\<rparr>] ! k)} = 0"
proof -
  have run: "session ([] @ [ToggleTodo (js ''a1'')]) (mounted (empty_state\<lparr>todos := [milk]\<rparr>))
     = (empty_state\<lparr>todos := [milk\<lparr>done_todo := True\<rparr>]\<rparr>,
        \<lparr>filteredTodos_shown = [milk\<lparr>done_todo := True\<rparr>], remainingCount_shown = 0\<rparr>,
        \<lparr>memo_filteredTodos =
           Some (([milk\<lparr>done_todo := True\<rparr>], All_filter), [milk\<lparr>done_todo := True\<rparr>]),
          memo_remainingCount = Some ([milk\<lparr>done_todo := True\<rparr>], 0)\<rparr>)"
    by (simp add: mounted_def render_def useMemo_def toggleTodo_def
          filteredTodos_def remainingCount_def empty_state_def milk_def js_def)
  have zero: "remainingCount [milk\<lparr>done_todo := True\<rparr>] = 0"
    by (simp add: remainingCount_def)
  have "remainingCount [milk\<lparr>done_todo := True\<rparr>]
          = card {k. k < length [milk\<lparr>done_todo := True\<rparr>] \<and>
                     \<not> done_todo ([milk\<lparr>done_todo := True\<rparr>] ! k)}"
    using remainingCount_fresh [of "[milk\<lparr>done_todo := True\<rparr>]" "[]"
            "empty_state\<lparr>todos := [milk]\<rparr>" "js ''a1''"]
    by (rule conjunct1)
  with zero have "card {k. k < length [milk\<lparr>done_todo := True\<rparr>] \<and>
                     \<not> done_todo ([milk\<lparr>done_todo := True\<rparr>] ! k)} = 0"
    by (simp only:)
  with run zero show ?thesis by (simp only: simp_thms)
qed

section \<open>The order of the list\<close>

lemma handle_keeps_head:
  assumes "is_toggle_or_delete e" and "id_todo x \<notin> set (referred e)"
    and "todos s = x # todos s'"
  shows "todos (handle e s) = x # todos (handle e s')"
  using assms by (cases e) (auto simp: toggleTodo_def deleteTodo_def)

lemma fold_keeps_head:
  assumes "\<forall>e \<in> set es. is_toggle_or_delete e \<and> id_todo x \<notin> set (referred e)"
    and "todos s = x # todos s'"
  shows "todos (fold handle es s) = x # todos (fold handle es s')"
  using assms
proof (induction es arbitrary: s s')
  case Nil
  then show ?case by simp
next
  case (Cons e es)
  from Cons.prems have "todos (handle e s) = x # todos (handle e s')"
    by (intro handle_keeps_head) simp_all
  with Cons.prems show ?case by (simp add: Cons.IH)
qed

lemma filter_toggle_other:
  "i \<in> T \<Longrightarrow>
   filter (\<lambda>t. id_todo t \<notin> T)
     (map (\<lambda>todo. if id_todo todo = i then todo\<lparr>done_todo := \<not> done_todo todo\<rparr> else todo) ts)
   = filter (\<lambda>t. id_todo t \<notin> T) ts"
  by (induction ts) auto

lemma filter_delete_other:
  "i \<in> T \<Longrightarrow>
   filter (\<lambda>t. id_todo t \<noteq> i \<and> id_todo t \<notin> T) ts = filter (\<lambda>t. id_todo t \<notin> T) ts"
  by (rule filter_cong) auto

lemma handle_keeps_untouched:
  assumes "is_toggle_or_delete e" and "set (referred e) \<subseteq> T"
  shows "filter (\<lambda>t. id_todo t \<notin> T) (todos (handle e s)) = filter (\<lambda>t. id_todo t \<notin> T) (todos s)"
  using assms
  by (cases e) (simp_all add: toggleTodo_def deleteTodo_def filter_toggle_other filter_delete_other)

lemma fold_keeps_untouched:
  assumes "\<forall>e \<in> set es. is_toggle_or_delete e \<and> set (referred e) \<subseteq> T"
  shows "filter (\<lambda>t. id_todo t \<notin> T) (todos (fold handle es s))
         = filter (\<lambda>t. id_todo t \<notin> T) (todos s)"
  using assms
proof (induction es arbitrary: s)
  case Nil
  then show ?case by simp
next
  case (Cons e es)
  then have "filter (\<lambda>t. id_todo t \<notin> T) (todos (fold handle es (handle e s)))
             = filter (\<lambda>t. id_todo t \<notin> T) (todos (handle e s))"
    by simp
  also from Cons.prems have "\<dots> = filter (\<lambda>t. id_todo t \<notin> T) (todos s)"
    by (intro handle_keeps_untouched) simp_all
  finally show ?case by simp
qed

text \<open>
  Claim C9. When a submission adds a task and a sequence of toggles and deletes follows,
  none of which names the id of the new task, the new task is still the head of the list,
  as it was created, and the tasks behind it are what the same sequence leaves of the
  list that was there before the submission. Moreover the tasks whose ids the sequence
  never names, the new one among them, are the same tasks in the same order as right
  after the submission.
\<close>

theorem newest_first:
  assumes "trim (input s) \<noteq> []"
    and "\<forall>e \<in> set es. is_toggle_or_delete e \<and> uuid \<notin> set (referred e)"
  shows "todos (fold handle es (handleAddTodo uuid now s))
           = \<lparr>id_todo = uuid, text_todo = trim (input s), done_todo = False, createdAt = now\<rparr>
               # todos (fold handle es s) \<and>
         filter (\<lambda>t. id_todo t \<notin> (\<Union>e \<in> set es. set (referred e)))
             (todos (fold handle es (handleAddTodo uuid now s)))
           = filter (\<lambda>t. id_todo t \<notin> (\<Union>e \<in> set es. set (referred e)))
               (todos (handleAddTodo uuid now s))"
proof
  let ?x = "\<lparr>id_todo = uuid, text_todo = trim (input s), done_todo = False, createdAt = now\<rparr>"
  from assms(1) have "todos (handleAddTodo uuid now s) = ?x # todos s"
    by (simp add: handleAddTodo_def Let_def)
  moreover from assms(2)
  have "\<forall>e \<in> set es. is_toggle_or_delete e \<and> id_todo ?x \<notin> set (referred e)"
    by simp
  ultimately show "todos (fold handle es (handleAddTodo uuid now s)) = ?x # todos (fold handle es s)"
    by (intro fold_keeps_head) simp_all
next
  from assms(2)
  have "\<forall>e \<in> set es. is_toggle_or_delete e \<and>
          set (referred e) \<subseteq> (\<Union>e \<in> set es. set (referred e))"
    by blast
  then show "filter (\<lambda>t. id_todo t \<notin> (\<Union>e \<in> set es. set (referred e)))
             (todos (fold handle es (handleAddTodo uuid now s)))
           = filter (\<lambda>t. id_todo t \<notin> (\<Union>e \<in> set es. set (referred e)))
               (todos (handleAddTodo uuid now s))"
    by (rule fold_keeps_untouched)
qed

theorem newest_first_witness:
  "trim (input (empty_state\<lparr>todos := [mail], input := js ''Buy milk''\<rparr>)) \<noteq> [] \<and>
   is_toggle_or_delete (ToggleTodo (js ''b2'')) \<and>
   js ''a1'' \<notin> set (referred (ToggleTodo (js ''b2''))) \<and>
   todos (fold handle [ToggleTodo (js ''b2'')]
            (handleAddTodo (js ''a1'') 1700000000000
               (empty_state\<lparr>todos := [mail], input := js ''Buy milk''\<rparr>)))
     = [milk, mail\<lparr>done_todo := False\<rparr>]"
proof -
  have t: "trim (input (empty_state\<lparr>todos := [mail], input := js ''Buy milk''\<rparr>)) = js ''Buy milk''"
    by (simp add: empty_state_def trim_def trimStart_def trimEnd_def js_def isWhiteSpace_def)
  have h1: "trim (input (empty_state\<lparr>todos := [mail], input := js ''Buy milk''\<rparr>)) \<noteq> []"
    unfolding t by (simp add: js_def)
  have h2: "\<forall>e \<in> set [ToggleTodo (js ''b2'')].
              is_toggle_or_delete e \<and> js ''a1'' \<notin> set (referred e)"
    by (simp add: js_def)
  have r: "todos (fold handle [ToggleTodo (js ''b2'')]
             (empty_state\<lparr>todos := [mail], input := js ''Buy milk''\<rparr>))
           = [mail\<lparr>done_todo := False\<rparr>]"
    by (simp add: toggleTodo_def empty_state_def mail_def)
  from newest_first [OF h1 h2, of 1700000000000]
  have "todos (fold handle [ToggleTodo (js ''b2'')]
            (handleAddTodo (js ''a1'') 1700000000000
               (empty_state\<lparr>todos := [mail], input := js ''Buy milk''\<rparr>)))
     = \<lparr>id_todo = js ''a1'',
         text_todo = trim (input (empty_state\<lparr>todos := [mail], input := js ''Buy milk''\<rparr>)),
         done_todo = False, createdAt = 1700000000000\<rparr>
       # todos (fold handle [ToggleTodo (js ''b2'')]
             (empty_state\<lparr>todos := [mail], input := js ''Buy milk''\<rparr>))"
    by (rule conjunct1)
  then have "todos (fold handle [ToggleTodo (js ''b2'')]
            (handleAddTodo (js ''a1'') 1700000000000
               (empty_state\<lparr>todos := [mail], input := js ''Buy milk''\<rparr>)))
     = [milk, mail\<lparr>done_todo := False\<rparr>]"
    by (simp only: t r milk_def)
  with h1 h2 show ?thesis by simp
qed

section \<open>Tasks that share an id\<close>

lemma toggled_done:
  "k < length (todos s) \<Longrightarrow>
   done_todo (todos (toggleTodo i s) ! k)
     = (if id_todo (todos s ! k) = i then \<not> done_todo (todos s ! k) else done_todo (todos s ! k))"
  by (simp add: toggleTodo_def)

lemma flipped_positions:
  "{k. k < length (todos s) \<and> done_todo (todos (toggleTodo i s) ! k) \<noteq> done_todo (todos s ! k)}
   = {k. k < length (todos s) \<and> id_todo (todos s ! k) = i}"
  by (auto simp: toggled_done split: if_splits)

text \<open>
  Claim C10. When more than one task of the list carries the given id, \<^verbatim>\<open>toggleTodo\<close>
  flips \<^verbatim>\<open>done\<close> at every position whose task carries it, so at more than one
  position. Such a list can be the list of the state: \<^verbatim>\<open>loadInitialTodos\<close> returns a
  stored array as it is parsed, without looking at its elements.
\<close>

theorem toggle_duplicates:
  assumes "1 < length (filter (\<lambda>t. id_todo t = i) (todos s))"
  shows "(\<forall>k < length (todos s). id_todo (todos s ! k) = i \<longrightarrow>
            done_todo (todos (toggleTodo i s) ! k) = (\<not> done_todo (todos s ! k))) \<and>
         1 < card {k. k < length (todos s) \<and>
                      done_todo (todos (toggleTodo i s) ! k) \<noteq> done_todo (todos s ! k)} \<and>
         (localStorage_getItem w STORAGE_KEY = Inr (Some raw) \<and> raw \<noteq> [] \<and>
          JSON_parse raw = Inr (JsonArray (todos s))
          \<longrightarrow> loadInitialTodos (Some w) JSON_parse = Inr (todos s))"
proof (intro conjI)
  show "\<forall>k < length (todos s). id_todo (todos s ! k) = i \<longrightarrow>
            done_todo (todos (toggleTodo i s) ! k) = (\<not> done_todo (todos s ! k))"
    by (simp add: toggled_done)
next
  have "card {k. k < length (todos s) \<and>
                 done_todo (todos (toggleTodo i s) ! k) \<noteq> done_todo (todos s ! k)}
        = length (filter (\<lambda>t. id_todo t = i) (todos s))"
    by (simp only: flipped_positions length_filter_conv_card)
  with assms show "1 < card {k. k < length (todos s) \<and>
                      done_todo (todos (toggleTodo i s) ! k) \<noteq> done_todo (todos s ! k)}"
    by simp
next
  show "localStorage_getItem w STORAGE_KEY = Inr (Some raw) \<and> raw \<noteq> [] \<and>
          JSON_parse raw = Inr (JsonArray (todos s))
          \<longrightarrow> loadInitialTodos (Some w) JSON_parse = Inr (todos s)"
    by (simp add: loadInitialTodos_def loadInitialTodos_try_def)
qed

theorem toggle_duplicates_witness:
  "1 < length (filter (\<lambda>t. id_todo t = js ''a1'')
                (todos (empty_state\<lparr>todos := [milk, mail, milk\<lparr>done_todo := True\<rparr>]\<rparr>))) \<and>
   todos (toggleTodo (js ''a1'') (empty_state\<lparr>todos := [milk, mail, milk\<lparr>done_todo := True\<rparr>]\<rparr>))
     = [milk\<lparr>done_todo := True\<rparr>, mail, milk] \<and>
   loadInitialTodos (Some (browser (\<lambda>k. Some (js ''[..]''))))
       (\<lambda>raw. Inr (JsonArray [milk, mail, milk\<lparr>done_todo := True\<rparr>]))
     = Inr [milk, mail, milk\<lparr>done_todo := True\<rparr>]"
proof -
  have h: "1 < length (filter (\<lambda>t. id_todo t = js ''a1'')
                (todos (empty_state\<lparr>todos := [milk, mail, milk\<lparr>done_todo := True\<rparr>]\<rparr>)))"
    by (simp add: empty_state_def milk_def mail_def js_def)
  have t: "todos (toggleTodo (js ''a1'')
                   (empty_state\<lparr>todos := [milk, mail, milk\<lparr>done_todo := True\<rparr>]\<rparr>))
           = [milk\<lparr>done_todo := True\<rparr>, mail, milk]"
    by (simp add: toggleTodo_def empty_state_def milk_def mail_def js_def)
  from toggle_duplicates [OF h, of "browser (\<lambda>k. Some (js ''[..]''))" "js ''[..]''"
         "\<lambda>raw. Inr (JsonArray [milk, mail, milk\<lparr>done_todo := True\<rparr>])"]
  have "loadInitialTodos (Some (browser (\<lambda>k. Some (js ''[..]''))))
          (\<lambda>raw. Inr (JsonArray [milk, mail, milk\<lparr>done_todo := True\<rparr>]))
        = Inr [milk, mail, milk\<lparr>done_todo := True\<rparr>]"
    by (simp add: browser_def empty_state_def js_def)
  with h t show ?thesis by simp
qed

section \<open>The initial theme\<close>

text \<open>
  As claim C2 states it, the theme would be dark whenever no valid theme is stored and the
  host offers no preference signal. With a window that has no \<^verbatim>\<open>matchMedia\<close> and
  nothing stored, \<^verbatim>\<open>prefersDark\<close> is \<^verbatim>\<open>undefined\<close> and the theme is light.
\<close>

theorem theme_default_counterexample:
  "localStorage_getItem bare_window THEME_KEY = Inr None \<and>
   matchMedia bare_window = None \<and>
   loadInitialTheme (Some bare_window) = Inr Light \<and>
   loadInitialTheme (Some bare_window) \<noteq> Inr Dark"
  by (simp add: loadInitialTheme_def bare_window_def)

text \<open>
  Claim C2, amended. With a window whose storage can be read: a stored \<^verbatim>\<open>'dark'\<close> or
  \<^verbatim>\<open>'light'\<close> is the theme; otherwise, when the host has \<^verbatim>\<open>matchMedia\<close>, the theme is
  dark if the query \<^verbatim>\<open>(prefers-color-scheme: dark)\<close> matches and light if not; otherwise,
  with a window but no \<^verbatim>\<open>matchMedia\<close>, the theme is light. With no window at all the theme
  is dark.
\<close>

theorem theme_initialisation:
  "loadInitialTheme None = Inr Dark \<and>
   (localStorage_getItem w THEME_KEY = Inr (Some (js ''dark''))
      \<longrightarrow> loadInitialTheme (Some w) = Inr Dark) \<and>
   (localStorage_getItem w THEME_KEY = Inr (Some (js ''light''))
      \<longrightarrow> loadInitialTheme (Some w) = Inr Light) \<and>
   (localStorage_getItem w THEME_KEY = Inr stored \<and>
    stored \<noteq> Some (js ''dark'') \<and> stored \<noteq> Some (js ''light'') \<and> matchMedia w = Some mm
      \<longrightarrow> loadInitialTheme (Some w)
            = Inr (if mm (js ''(prefers-color-scheme: dark)'') then Dark else Light)) \<and>
   (localStorage_getItem w THEME_KEY = Inr stored \<and>
    stored \<noteq> Some (js ''dark'') \<and> stored \<noteq> Some (js ''light'') \<and> matchMedia w = None
      \<longrightarrow> loadInitialTheme (Some w) = Inr Light)"
  by (simp add: loadInitialTheme_def js_def)

theorem theme_initialisation_witness:
  "loadInitialTheme (Some (browser (\<lambda>k. Some (js ''light'')))) = Inr Light \<and>
   loadInitialTheme (Some (browser (\<lambda>k. Some (js ''blue'')))) = Inr Dark \<and>
   loadInitialTheme (Some (browser (\<lambda>k. None)\<lparr>matchMedia := Some (\<lambda>q. False)\<rparr>)) = Inr Light \<and>
   loadInitialTheme (Some bare_window) = Inr Light"
  using theme_initialisation [of "browser (\<lambda>k. Some (js ''light''))"]
        theme_initialisation [of "browser (\<lambda>k. Some (js ''blue''))" "Some (js ''blue'')"
          "\<lambda>q. True"]
        theme_initialisation [of "browser (\<lambda>k. None)\<lparr>matchMedia := Some (\<lambda>q. False)\<rparr>" None
          "\<lambda>q. False"]
        theme_initialisation [of bare_window None]
  by (simp add: browser_def bare_window_def js_def)

end
